theory Spec2Isabelle
  imports Complex_Main
begin

section \<open>Galaxy intrinsic alignment simulator: the orientation model of \<open>app.py\<close>\<close>

text \<open>
  The program is a Dash callback, \<open>update_plot\<close>, over three module-level numpy arrays
  (\<open>x\<close>, \<open>y\<close>, \<open>theta_random\<close>) of \<open>N_galaxies\<close> entries each. A one-dimensional numpy
  array is a list.

  The entries of the arrays are float64. In the model of lines 199 to 222, of
  \<open>make_ellipses\<close> and of the store they are taken as real numbers and the arithmetic as
  exact. What is stated of the program on that model does not depend on rounding: which
  expression is evaluated for a galaxy, that equal computations give equal results, which
  objects a run leaves unchanged. Line 271 is modelled in float64 too: it uses only
  operations that IEEE 754 defines exactly. \<open>sin\<close>, \<open>cos\<close> and \<open>arctan2\<close> come from the C
  library, and the source does not define their float64 results; what depends on their
  rounding is stated for exact arithmetic only, in the last section.
\<close>

subsection \<open>numpy on one-dimensional arrays\<close>

type_synonym ndarray = "real list"

datatype error = ValueError | TypeError

text \<open>\<open>np.deg2rad\<close> and \<open>np.degrees\<close>.\<close>

definition deg2rad :: "real \<Rightarrow> real" where
  "deg2rad d = d * (pi / 180)"

definition degrees :: "real \<Rightarrow> real" where
  "degrees r = r * (180 / pi)"

text \<open>
  \<open>np.arctan2(y, x)\<close>: the angle of the point \<open>(x, y)\<close> in \<open>(-pi, pi]\<close>, with the value
  \<open>0\<close> at the origin.
\<close>

definition arctan2 :: "real \<Rightarrow> real \<Rightarrow> real" where
  "arctan2 y x =
     (if 0 < x then arctan (y / x)
      else if x < 0 then (if 0 \<le> y then arctan (y / x) + pi else arctan (y / x) - pi)
      else if 0 < y then pi / 2
      else if y < 0 then - (pi / 2)
      else 0)"

text \<open>
  An arithmetic operator on two arrays works element by element. The shapes \<open>(n,)\<close> and
  \<open>(m,)\<close> are compatible when \<open>n = m\<close> or one of them is \<open>1\<close>; otherwise numpy raises
  \<open>ValueError: operands could not be broadcast together\<close>.
\<close>

definition broadcast2 :: "(real \<Rightarrow> real \<Rightarrow> real) \<Rightarrow> ndarray \<Rightarrow> ndarray \<Rightarrow> error + ndarray" where
  "broadcast2 f a b =
     (if length a = length b then Inr (map2 f a b)
      else if length a = 1 then Inr (map (f (hd a)) b)
      else if length b = 1 then Inr (map (\<lambda>u. f u (hd b)) a)
      else Inl ValueError)"

text \<open>
  The operator \<open>v % 180\<close> in exact arithmetic: the result takes the sign of the divisor.
  The float64 operator is \<open>remainder180\<close> below.
\<close>

definition mod180 :: "real \<Rightarrow> real" where
  "mod180 v = v - 180 * of_int \<lfloor>v / 180\<rfloor>"

text \<open>
  \<open>np.linspace(start, stop, num)\<close> with the default \<open>endpoint=True\<close>: \<open>num\<close> samples with
  step \<open>(stop - start) / (num - 1)\<close>, the last one then overwritten with \<open>stop\<close>.
\<close>

definition linspace :: "real \<Rightarrow> real \<Rightarrow> nat \<Rightarrow> ndarray" where
  "linspace start stop num =
     (if num = 0 then []
      else if num = 1 then [start]
      else (map (\<lambda>i. start + real i * ((stop - start) / real (num - 1))) [0..<num])
             [num - 1 := stop])"

subsection \<open>Fixed parameters\<close>

definition N_galaxies :: nat where
  "N_galaxies = 200"

definition field_size :: real where
  "field_size = 100"

definition ellipticity :: real where
  "ellipticity = 0.6"

text \<open>
  The module draws \<open>x\<close>, \<open>y\<close> and \<open>theta_random\<close> with \<open>N_galaxies\<close> entries each. The
  functions below take the three arrays as arguments \<open>xs\<close>, \<open>ys\<close>, \<open>theta_random\<close>.
\<close>

definition population_ok :: "ndarray \<Rightarrow> ndarray \<Rightarrow> ndarray \<Rightarrow> bool" where
  "population_ok xs ys theta_random \<longleftrightarrow>
     length xs = length ys \<and> length ys = length theta_random"

subsection \<open>\<open>update_plot\<close>, lines 199 to 222: the final angles\<close>

text \<open>Lines 203 to 213: the shear direction of every galaxy.\<close>

definition shear_angles :: "ndarray \<Rightarrow> ndarray \<Rightarrow> real \<Rightarrow> string \<Rightarrow> error + ndarray" where
  "shear_angles xs ys shear_angle_uniform shear_pattern =
     (let x_centered = map (\<lambda>v. v - 0.5) xs;
          y_centered = map (\<lambda>v. v - 0.5) ys
      in if shear_pattern = ''uniform'' then
           Inr (replicate (length xs) shear_angle_uniform)
         else if shear_pattern = ''radial'' then
           (case broadcast2 arctan2 y_centered x_centered of
              Inl e \<Rightarrow> Inl e
            | Inr a \<Rightarrow> Inr (map (\<lambda>v. v + pi / 2) a))
         else if shear_pattern = ''tangential'' then
           broadcast2 arctan2 y_centered x_centered
         else
           Inr (replicate (length xs) 0))"

text \<open>Line 216.\<close>

definition intrinsic_offset :: "real \<Rightarrow> real \<Rightarrow> ndarray \<Rightarrow> ndarray" where
  "intrinsic_offset ia_strength preferred_angle theta_random =
     map (\<lambda>t. ia_strength * sin (2 * (preferred_angle - t))) theta_random"

text \<open>Line 219.\<close>

definition shear_offset :: "real \<Rightarrow> ndarray \<Rightarrow> ndarray \<Rightarrow> error + ndarray" where
  "shear_offset shear_strength sa theta_random =
     (case broadcast2 (\<lambda>s t. s - t) sa theta_random of
        Inl e \<Rightarrow> Inl e
      | Inr d \<Rightarrow> Inr (map (\<lambda>v. shear_strength * sin (2 * v)) d))"

text \<open>Lines 199 to 222 together.\<close>

definition theta_all ::
  "ndarray \<Rightarrow> ndarray \<Rightarrow> ndarray \<Rightarrow> real \<Rightarrow> real \<Rightarrow> real \<Rightarrow> real \<Rightarrow> string \<Rightarrow> error + ndarray" where
  "theta_all xs ys theta_random ia_strength shear_strength preferred_angle_deg shear_angle_deg
       shear_pattern =
     (let preferred_angle = deg2rad preferred_angle_deg;
          shear_angle_uniform = deg2rad shear_angle_deg
      in case shear_angles xs ys shear_angle_uniform shear_pattern of
           Inl e \<Rightarrow> Inl e
         | Inr sa \<Rightarrow>
             (let io = intrinsic_offset ia_strength preferred_angle theta_random
              in case shear_offset shear_strength sa theta_random of
                   Inl e \<Rightarrow> Inl e
                 | Inr so \<Rightarrow>
                     (case broadcast2 (\<lambda>a b. a + b) theta_random io of
                        Inl e \<Rightarrow> Inl e
                      | Inr s \<Rightarrow> broadcast2 (\<lambda>a b. a + b) s so)))"

subsection \<open>\<open>make_ellipses\<close> and the histogram angles\<close>

text \<open>
  A \<open>go.Scatter\<close> trace with its \<open>x\<close> and \<open>y\<close> data. The overlay of orientation vectors
  separates its segments by \<open>None\<close>, so an entry is optional.
\<close>

record scatter =
  sx :: "real option list"
  sy :: "real option list"

text \<open>
  The body of the loop of \<open>make_ellipses\<close> for one galaxy. The source fixes the number of
  samples at \<open>30\<close>; it is the parameter \<open>n\<close> here.
\<close>

definition ellipse_outline :: "nat \<Rightarrow> real \<Rightarrow> real \<Rightarrow> real \<Rightarrow> real \<Rightarrow> ndarray \<times> ndarray" where
  "ellipse_outline n xi yi t e =
     (let w = 1;
          h = w * e;
          t_vals = linspace 0 (2 * pi) n;
          ex = map (\<lambda>v. (w / 2) * cos v) t_vals;
          ey = map (\<lambda>v. (h / 2) * sin v) t_vals;
          ex_rot = map2 (\<lambda>a b. cos t * a - sin t * b) ex ey;
          ey_rot = map2 (\<lambda>a b. sin t * a + cos t * b) ex ey;
          ex_final = map (\<lambda>v. v + xi) ex_rot;
          ey_final = map (\<lambda>v. v + yi) ey_rot
      in (ex_final, ey_final))"

definition make_ellipses :: "ndarray \<Rightarrow> ndarray \<Rightarrow> ndarray \<Rightarrow> real \<Rightarrow> scatter list" where
  "make_ellipses xs ys theta e =
     map (\<lambda>(xi, yi, t). case ellipse_outline 30 xi yi t e of
            (ex_final, ey_final) \<Rightarrow> \<lparr>sx = map Some ex_final, sy = map Some ey_final\<rparr>)
         (zip xs (zip ys theta))"

text \<open>Line 271, \<open>np.degrees(theta_all) % 180\<close>, in exact arithmetic.\<close>

definition angles_deg :: "ndarray \<Rightarrow> ndarray" where
  "angles_deg th = map (\<lambda>t. mod180 (degrees t)) th"

subsection \<open>The callback \<open>update_plot\<close> on a store of objects\<close>

text \<open>
  The callback also changes objects in place: \<open>traces.append\<close>, \<open>x_lines.extend\<close>,
  \<open>fig.add_trace\<close>. To follow what it does to the module's arrays, the objects live in a
  store. An address is an index into the store, a new object goes to the end of it, and a
  trace refers to its data by address.
\<close>

type_synonym addr = nat

datatype trace = Scatter addr addr | Histogram addr

datatype obj = NdArray ndarray | PyList "real option list" | Traces "trace list"

type_synonym store = "obj list"

text \<open>
  A statement takes the store and returns a value or the exception raised, and the store
  it leaves behind.
\<close>

type_synonym 'a prog = "store \<Rightarrow> (error + 'a) \<times> store"

definition ret :: "'a \<Rightarrow> 'a prog" where
  "ret v s = (Inr v, s)"

definition raise :: "error \<Rightarrow> 'a prog" where
  "raise e s = (Inl e, s)"

definition bind_prog :: "'a prog \<Rightarrow> ('a \<Rightarrow> 'b prog) \<Rightarrow> 'b prog" where
  "bind_prog m f s = (case m s of (Inl e, s') \<Rightarrow> (Inl e, s') | (Inr v, s') \<Rightarrow> f v s')"

text \<open>
  \<open>new\<close> allocates an object. \<open>array_at\<close> and \<open>traces_at\<close> read one; an address that does
  not hold an object of the expected kind is a \<open>TypeError\<close>. \<open>list_extend\<close> is
  \<open>list.extend\<close> and \<open>append_trace\<close> is \<open>list.append\<close> and \<open>Figure.add_trace\<close>: they update
  the object at the address in place.
\<close>

definition new :: "obj \<Rightarrow> addr prog" where
  "new ob s = (Inr (length s), s @ [ob])"

definition array_at :: "addr \<Rightarrow> ndarray prog" where
  "array_at r s =
     (if r < length s then (case s ! r of NdArray a \<Rightarrow> (Inr a, s) | _ \<Rightarrow> (Inl TypeError, s))
      else (Inl TypeError, s))"

definition traces_at :: "addr \<Rightarrow> trace list prog" where
  "traces_at r s =
     (if r < length s then (case s ! r of Traces ts \<Rightarrow> (Inr ts, s) | _ \<Rightarrow> (Inl TypeError, s))
      else (Inl TypeError, s))"

definition list_extend :: "addr \<Rightarrow> real option list \<Rightarrow> unit prog" where
  "list_extend r vs s =
     (if r < length s then
        (case s ! r of PyList l \<Rightarrow> (Inr (), s[r := PyList (l @ vs)]) | _ \<Rightarrow> (Inl TypeError, s))
      else (Inl TypeError, s))"

definition append_trace :: "addr \<Rightarrow> trace \<Rightarrow> unit prog" where
  "append_trace r t s =
     (if r < length s then
        (case s ! r of Traces ts \<Rightarrow> (Inr (), s[r := Traces (ts @ [t])]) | _ \<Rightarrow> (Inl TypeError, s))
      else (Inl TypeError, s))"

text \<open>
  The numpy expressions of the callback: each reads its operands from the store and
  allocates its result. The temporaries of a compound expression are not stored on their
  own.
\<close>

definition np_map :: "(real \<Rightarrow> real) \<Rightarrow> addr \<Rightarrow> addr prog" where
  "np_map f r = bind_prog (array_at r) (\<lambda>a. new (NdArray (map f a)))"

definition np_map2 :: "(real \<Rightarrow> real \<Rightarrow> real) \<Rightarrow> addr \<Rightarrow> addr \<Rightarrow> addr prog" where
  "np_map2 f r1 r2 =
     bind_prog (array_at r1) (\<lambda>a.
     bind_prog (array_at r2) (\<lambda>b.
       case broadcast2 f a b of Inl e \<Rightarrow> raise e | Inr c \<Rightarrow> new (NdArray c)))"

definition np_full_len :: "addr \<Rightarrow> real \<Rightarrow> addr prog" where
  "np_full_len r v = bind_prog (array_at r) (\<lambda>a. new (NdArray (replicate (length a) v)))"

text \<open>
  The module-level names \<open>x\<close>, \<open>y\<close> and \<open>theta_random\<close> are bound to three addresses. The
  callback has no \<open>global\<close> statement, so it cannot rebind them.
\<close>

record module =
  x_ref :: addr
  y_ref :: addr
  theta_random_ref :: addr

text \<open>
  \<open>make_ellipses\<close> on the store: the loop allocates \<open>ex_final\<close> and \<open>ey_final\<close> for each
  galaxy and appends the trace to the list \<open>traces\<close>.
\<close>

fun ellipse_loop :: "addr \<Rightarrow> real \<Rightarrow> (real \<times> real \<times> real) list \<Rightarrow> unit prog" where
  "ellipse_loop traces e [] = ret ()"
| "ellipse_loop traces e ((xi, yi, t) # rest) =
     bind_prog (new (NdArray (fst (ellipse_outline 30 xi yi t e)))) (\<lambda>ex_final.
     bind_prog (new (NdArray (snd (ellipse_outline 30 xi yi t e)))) (\<lambda>ey_final.
     bind_prog (append_trace traces (Scatter ex_final ey_final)) (\<lambda>_.
       ellipse_loop traces e rest)))"

definition make_ellipses_store :: "addr \<Rightarrow> addr \<Rightarrow> addr \<Rightarrow> real \<Rightarrow> addr prog" where
  "make_ellipses_store xr yr thr e =
     bind_prog (new (Traces [])) (\<lambda>traces.
     bind_prog (array_at xr) (\<lambda>xs.
     bind_prog (array_at yr) (\<lambda>ys.
     bind_prog (array_at thr) (\<lambda>theta.
     bind_prog (ellipse_loop traces e (zip xs (zip ys theta))) (\<lambda>_.
       ret traces)))))"

text \<open>
  Lines 241 to 268, the overlay of orientation vectors.
\<close>

fun lines_loop :: "addr \<Rightarrow> addr \<Rightarrow> (real \<times> real \<times> real \<times> real) list \<Rightarrow> unit prog" where
  "lines_loop x_lines y_lines [] = ret ()"
| "lines_loop x_lines y_lines ((xs, ys, xe, ye) # rest) =
     bind_prog (list_extend x_lines [Some xs, Some xe, None]) (\<lambda>_.
     bind_prog (list_extend y_lines [Some ys, Some ye, None]) (\<lambda>_.
       lines_loop x_lines y_lines rest))"

definition overlay_vectors :: "module \<Rightarrow> addr \<Rightarrow> addr \<Rightarrow> unit prog" where
  "overlay_vectors m th fig =
     (let axis_length = 2.5 in
      bind_prog (np_map2 (\<lambda>a t. a - 0.5 * axis_length * cos t) (x_ref m) th) (\<lambda>x_start.
      bind_prog (np_map2 (\<lambda>a t. a - 0.5 * axis_length * sin t) (y_ref m) th) (\<lambda>y_start.
      bind_prog (np_map2 (\<lambda>a t. a + 0.5 * axis_length * cos t) (x_ref m) th) (\<lambda>x_end.
      bind_prog (np_map2 (\<lambda>a t. a + 0.5 * axis_length * sin t) (y_ref m) th) (\<lambda>y_end.
      bind_prog (new (PyList [])) (\<lambda>x_lines.
      bind_prog (new (PyList [])) (\<lambda>y_lines.
      bind_prog (array_at x_start) (\<lambda>a.
      bind_prog (array_at y_start) (\<lambda>b.
      bind_prog (array_at x_end) (\<lambda>c.
      bind_prog (array_at y_end) (\<lambda>d.
      bind_prog (lines_loop x_lines y_lines (zip a (zip b (zip c d)))) (\<lambda>_.
        append_trace fig (Scatter x_lines y_lines)))))))))))))"

text \<open>
  Lines 199 to 222 on the store; the address of \<open>theta_all\<close> is returned.
\<close>

definition final_angles ::
  "module \<Rightarrow> real \<Rightarrow> real \<Rightarrow> real \<Rightarrow> real \<Rightarrow> string \<Rightarrow> addr prog" where
  "final_angles m ia_strength shear_strength preferred_angle_deg shear_angle_deg shear_pattern =
     (let preferred_angle = deg2rad preferred_angle_deg;
          shear_angle_uniform = deg2rad shear_angle_deg
      in
      bind_prog (np_map (\<lambda>v. v - 0.5) (x_ref m)) (\<lambda>x_centered.
      bind_prog (np_map (\<lambda>v. v - 0.5) (y_ref m)) (\<lambda>y_centered.
      bind_prog
        (if shear_pattern = ''uniform'' then np_full_len (x_ref m) shear_angle_uniform
         else if shear_pattern = ''radial'' then
           bind_prog (np_map2 arctan2 y_centered x_centered) (np_map (\<lambda>v. v + pi / 2))
         else if shear_pattern = ''tangential'' then np_map2 arctan2 y_centered x_centered
         else np_full_len (x_ref m) 0) (\<lambda>sa.
      bind_prog (np_map (\<lambda>t. ia_strength * sin (2 * (preferred_angle - t)))
                   (theta_random_ref m)) (\<lambda>io.
      bind_prog (np_map2 (\<lambda>s t. s - t) sa (theta_random_ref m)) (\<lambda>d.
      bind_prog (np_map (\<lambda>v. shear_strength * sin (2 * v)) d) (\<lambda>so.
      bind_prog (np_map2 (\<lambda>a b. a + b) (theta_random_ref m) io) (\<lambda>s.
        np_map2 (\<lambda>a b. a + b) s so))))))))"

text \<open>
  The callback. The layout of the figures is left out; a figure is the list of its traces.
  The result is the pair \<open>(fig, hist_fig)\<close>.
\<close>

definition update_plot ::
  "module \<Rightarrow> real \<Rightarrow> real \<Rightarrow> real \<Rightarrow> real \<Rightarrow> string list \<Rightarrow> string \<Rightarrow> (addr \<times> addr) prog" where
  "update_plot m ia_strength shear_strength preferred_angle_deg shear_angle_deg toggle_value
       shear_pattern =
     bind_prog (final_angles m ia_strength shear_strength preferred_angle_deg shear_angle_deg
                  shear_pattern) (\<lambda>th.
     bind_prog (make_ellipses_store (x_ref m) (y_ref m) th ellipticity) (\<lambda>ellipses.
     bind_prog (traces_at ellipses) (\<lambda>ts.
     bind_prog (new (Traces ts)) (\<lambda>fig.
     bind_prog (if ''show_vectors'' \<in> set toggle_value then overlay_vectors m th fig
                else ret ()) (\<lambda>_.
     bind_prog (np_map (\<lambda>t. mod180 (degrees t)) th) (\<lambda>angles.
     bind_prog (new (Traces [])) (\<lambda>hist_fig.
     bind_prog (append_trace hist_fig (Histogram angles)) (\<lambda>_.
       ret (fig, hist_fig)))))))))"

text \<open>
  \<open>frames n m Q\<close>: started in a store of at least \<open>n\<close> objects, \<open>m\<close> leaves the first \<open>n\<close>
  objects as they were, and a value it returns satisfies \<open>Q\<close>.
\<close>

definition frames :: "nat \<Rightarrow> 'a prog \<Rightarrow> ('a \<Rightarrow> bool) \<Rightarrow> bool" where
  "frames n m Q \<longleftrightarrow>
     (\<forall>s. n \<le> length s \<longrightarrow>
        (case m s of (r, s') \<Rightarrow>
           n \<le> length s' \<and> take n s' = take n s \<and>
           (case r of Inl _ \<Rightarrow> True | Inr v \<Rightarrow> Q v)))"

subsection \<open>Line 271 in float64\<close>

text \<open>
  A float64 value: a real number that the format represents, an infinity or NaN. The two
  zeros are not told apart; nothing on line 271 depends on the sign of a zero.
\<close>

datatype float64 = Finite real | PosInf | NegInf | NaN

text \<open>
  Rounding to nearest, ties to even, as IEEE 754 defines it for binary64: the last place
  of a value \<open>v\<close> has the exponent \<open>\<lfloor>log 2 \<bar>v\<bar>\<rfloor> - 52\<close>, and not less than \<open>-1074\<close> (subnormal
  numbers); a result of magnitude \<open>2 ^ 1024\<close> or more is an infinity.
\<close>

definition pow2 :: "int \<Rightarrow> real" where
  "pow2 e = (if 0 \<le> e then 2 ^ nat e else 1 / 2 ^ nat (- e))"

definition round_half_even :: "real \<Rightarrow> int" where
  "round_half_even q =
     (let f = \<lfloor>q\<rfloor>; r = q - of_int f
      in if r < 1 / 2 then f
         else if 1 / 2 < r then f + 1
         else if even f then f else f + 1)"

definition exponent64 :: "real \<Rightarrow> int" where
  "exponent64 v = max (\<lfloor>log 2 \<bar>v\<bar>\<rfloor> - 52) (- 1074)"

definition round64 :: "real \<Rightarrow> float64" where
  "round64 v =
     (if v = 0 then Finite 0
      else let q = pow2 (exponent64 v);
               r = of_int (round_half_even (v / q)) * q
           in if pow2 1024 \<le> \<bar>r\<bar> then (if 0 < v then PosInf else NegInf)
              else Finite r)"

text \<open>
  \<open>np.degrees(v)\<close> is the product \<open>v * (180.0 / pi)\<close>, the factor being the double
  \<open>57.29577951308232 = 1007958012753983 / 2 ^ 44\<close>.
\<close>

definition RAD2DEG :: real where
  "RAD2DEG = 1007958012753983 / 2 ^ 44"

definition degrees64 :: "float64 \<Rightarrow> float64" where
  "degrees64 x =
     (case x of Finite v \<Rightarrow> round64 (v * RAD2DEG)
      | PosInf \<Rightarrow> PosInf | NegInf \<Rightarrow> NegInf | NaN \<Rightarrow> NaN)"

text \<open>
  \<open>v % 180\<close> on float64 is numpy's \<open>remainder\<close>: the C function \<open>fmod\<close>, which is exact and
  takes the sign of \<open>v\<close>, and then \<open>mod += 180\<close> when the result is negative; that addition is
  rounded. \<open>fmod\<close> of an infinity or of NaN is NaN.
\<close>

definition fmod180 :: "real \<Rightarrow> real" where
  "fmod180 a = a - 180 * of_int (if 0 \<le> a then \<lfloor>a / 180\<rfloor> else \<lceil>a / 180\<rceil>)"

definition remainder180 :: "float64 \<Rightarrow> float64" where
  "remainder180 x =
     (case x of
        Finite a \<Rightarrow>
          (let m = fmod180 a
           in if m \<noteq> 0 then (if m < 0 then round64 (m + 180) else Finite m)
              else Finite 0)
      | _ \<Rightarrow> NaN)"

text \<open>
  Line 271 in float64.
\<close>

definition angles_deg64 :: "float64 list \<Rightarrow> float64 list" where
  "angles_deg64 th = map (\<lambda>t. remainder180 (degrees64 t)) th"

section \<open>Properties\<close>

lemma broadcast2_same:
  "length a = length b \<Longrightarrow> broadcast2 f a b = Inr (map2 f a b)"
  by (simp add: broadcast2_def)

lemma shear_angles_ok:
  assumes "length xs = length ys"
  shows "\<exists>sa. shear_angles xs ys u p = Inr sa \<and> length sa = length xs"
  using assms by (simp add: shear_angles_def Let_def broadcast2_same)

lemma theta_all_explicit:
  assumes "population_ok xs ys th"
  shows "\<exists>sa. shear_angles xs ys (deg2rad sdeg) p = Inr sa \<and> length sa = length th \<and>
           theta_all xs ys th ia sh pdeg sdeg p =
             Inr (map2 (\<lambda>t s. t + ia * sin (2 * (deg2rad pdeg - t)) + sh * sin (2 * (s - t))) th sa)"
proof -
  from assms have l: "length xs = length ys" "length ys = length th"
    by (simp_all add: population_ok_def)
  from shear_angles_ok [OF l(1)] obtain sa where
    sa: "shear_angles xs ys (deg2rad sdeg) p = Inr sa" "length sa = length xs" by blast
  have len: "length sa = length th" using sa(2) l by simp
  have "theta_all xs ys th ia sh pdeg sdeg p =
          Inr (map2 (\<lambda>t s. t + ia * sin (2 * (deg2rad pdeg - t)) + sh * sin (2 * (s - t))) th sa)"
    using len
    by (simp add: theta_all_def Let_def sa(1) shear_offset_def intrinsic_offset_def
        broadcast2_same list_eq_iff_nth_eq)
  with sa(1) len show ?thesis by blast
qed

text \<open>
  Claim C1. For a population of \<open>N\<close> galaxies, \<open>theta_all\<close> returns \<open>N\<close> angles, and the
  angle of galaxy \<open>i\<close> is its base angle plus
  \<open>ia_strength * sin (2 * (preferred_angle - base))\<close> plus
  \<open>shear_strength * sin (2 * (shear_angles ! i - base))\<close>, a plain sum with nothing wrapped,
  where \<open>shear_angles\<close> is the array of directions that the pattern selects.
\<close>

theorem final_angle_formula:
  assumes "population_ok xs ys th"
  shows "\<exists>sa zs. shear_angles xs ys (deg2rad sdeg) p = Inr sa \<and>
           theta_all xs ys th ia sh pdeg sdeg p = Inr zs \<and>
           length sa = length th \<and> length zs = length th \<and>
           (\<forall>i < length th. zs ! i =
              th ! i + ia * sin (2 * (deg2rad pdeg - th ! i)) + sh * sin (2 * (sa ! i - th ! i)))"
proof -
  from theta_all_explicit [OF assms, of sdeg p ia sh pdeg] obtain sa where
    sa: "shear_angles xs ys (deg2rad sdeg) p = Inr sa" "length sa = length th"
      "theta_all xs ys th ia sh pdeg sdeg p =
             Inr (map2 (\<lambda>t s. t + ia * sin (2 * (deg2rad pdeg - t)) + sh * sin (2 * (s - t))) th sa)"
    by blast
  show ?thesis
    using sa by simp
qed

theorem final_angle_formula_witness:
  "population_ok [50] [50] [0] \<and>
   (\<exists>sa zs. shear_angles [50] [50] (deg2rad 90) ''uniform'' = Inr sa \<and>
      theta_all [50] [50] [0] 1 0 45 90 ''uniform'' = Inr zs \<and>
      length sa = length [0::real] \<and> length zs = length [0::real] \<and>
      (\<forall>i < length [0::real]. zs ! i =
         [0] ! i + 1 * sin (2 * (deg2rad 45 - [0] ! i)) + 0 * sin (2 * (sa ! i - [0] ! i))))"
proof -
  have h: "population_ok [50] [50] [0]" by (simp add: population_ok_def)
  show ?thesis using h final_angle_formula [OF h, of 90 "''uniform''" 1 0 45] by simp
qed

text \<open>
  Claim C2. With both strengths \<open>0\<close>, \<open>theta_all\<close> returns the base angles unchanged, for
  every preferred angle, shear angle and shear pattern.
\<close>

theorem zero_perturbation:
  assumes "population_ok xs ys th"
  shows "theta_all xs ys th 0 0 pdeg sdeg p = Inr th"
proof -
  from theta_all_explicit [OF assms, of sdeg p 0 0 pdeg] obtain sa where
    sa: "length sa = length th"
      "theta_all xs ys th 0 0 pdeg sdeg p =
             Inr (map2 (\<lambda>t s. t + 0 * sin (2 * (deg2rad pdeg - t)) + 0 * sin (2 * (s - t))) th sa)"
    by blast
  then show ?thesis by (simp add: list_eq_iff_nth_eq)
qed

theorem zero_perturbation_witness:
  "population_ok [3, 40] [7, 1] [1 / 2, 2] \<and>
   theta_all [3, 40] [7, 1] [1 / 2, 2] 0 0 45 90 ''radial'' = Inr [1 / 2, 2]"
proof -
  have h: "population_ok [3, 40] [7, 1] [1 / 2, 2]" by (simp add: population_ok_def)
  show ?thesis using h zero_perturbation [OF h, of 45 90 "''radial''"] by simp
qed

text \<open>
  The directions of the radial and the tangential pattern, for the galaxy \<open>i\<close>: the angle
  of its raw position as seen from the point \<open>(0.5, 0.5)\<close>, plus a quarter turn for the
  radial pattern.
\<close>

lemma shear_angles_centre:
  assumes "length xs = length ys" "i < length xs"
  shows "\<exists>sa. shear_angles xs ys u ''tangential'' = Inr sa \<and>
           sa ! i = arctan2 (ys ! i - 0.5) (xs ! i - 0.5)"
    and "\<exists>sa. shear_angles xs ys u ''radial'' = Inr sa \<and>
           sa ! i = arctan2 (ys ! i - 0.5) (xs ! i - 0.5) + pi / 2"
  using assms by (simp_all add: shear_angles_def broadcast2_same)

text \<open>
  Claim C3. The source subtracts the constant \<open>0.5\<close> from the raw coordinates, so the
  centre of the radial and tangential patterns is \<open>(0.5, 0.5)\<close> and not the midpoint
  \<open>field_size / 2\<close>. For the galaxy at \<open>(50, 50)\<close> the tangential direction is \<open>pi / 4\<close> and the
  radial one \<open>pi / 4 + pi / 2\<close>, where a centre at the midpoint gives \<open>arctan2 0 0 = 0\<close>.
\<close>

theorem shear_center_is_half:
  "shear_angles [50] [50] u ''tangential'' = Inr [pi / 4] \<and>
   shear_angles [50] [50] u ''radial'' = Inr [pi / 4 + pi / 2] \<and>
   arctan2 (50 - field_size / 2) (50 - field_size / 2) = 0"
  by (simp add: shear_angles_def broadcast2_def arctan2_def arctan_one field_size_def)

lemma shear_angles_fallback:
  assumes "p \<noteq> ''uniform''" "p \<noteq> ''radial''" "p \<noteq> ''tangential''"
  shows "shear_angles xs ys u p = shear_angles xs ys (deg2rad 0) ''uniform''"
  using assms by (simp add: shear_angles_def deg2rad_def)

text \<open>
  Claim C4. A shear pattern other than the three known strings gives the same result as
  the uniform pattern with shear angle \<open>0\<close>, and on a population of three arrays of equal
  length that result is an array, not an error.
\<close>

theorem pattern_fallback:
  assumes "p \<noteq> ''uniform''" "p \<noteq> ''radial''" "p \<noteq> ''tangential''"
  shows "theta_all xs ys th ia sh pdeg sdeg p = theta_all xs ys th ia sh pdeg 0 ''uniform'' \<and>
         (population_ok xs ys th \<longrightarrow> (\<exists>zs. theta_all xs ys th ia sh pdeg sdeg p = Inr zs))"
proof
  show "theta_all xs ys th ia sh pdeg sdeg p = theta_all xs ys th ia sh pdeg 0 ''uniform''"
    using assms by (simp add: theta_all_def shear_angles_def deg2rad_def)
  show "population_ok xs ys th \<longrightarrow> (\<exists>zs. theta_all xs ys th ia sh pdeg sdeg p = Inr zs)"
    using theta_all_explicit [of xs ys th sdeg p ia sh pdeg] by blast
qed

theorem pattern_fallback_witness:
  "''unknown_value'' \<noteq> ''uniform'' \<and> ''unknown_value'' \<noteq> ''radial'' \<and>
   ''unknown_value'' \<noteq> ''tangential'' \<and> population_ok [50] [50] [0] \<and>
   theta_all [50] [50] [0] 1 1 45 90 ''unknown_value'' = theta_all [50] [50] [0] 1 1 45 0 ''uniform'' \<and>
   (\<exists>zs. theta_all [50] [50] [0] 1 1 45 90 ''unknown_value'' = Inr zs)"
proof -
  have h: "''unknown_value'' \<noteq> ''uniform''" "''unknown_value'' \<noteq> ''radial''"
    "''unknown_value'' \<noteq> ''tangential''" by simp_all
  have k: "population_ok [50] [50] [0]" by (simp add: population_ok_def)
  show ?thesis
    using h k pattern_fallback [OF h, of "[50]" "[50]" "[0]" 1 1 45 90] by blast
qed

subsection \<open>The histogram angles in float64\<close>

lemma pow2_powr: "pow2 e = 2 powr (real_of_int e)"
proof (cases "0 \<le> e")
  case True
  then show ?thesis by (simp add: pow2_def powr_realpow [symmetric])
next
  case False
  then have "(2::real) powr (real_of_int e) = 1 / 2 powr (real_of_int (- e))"
    by (simp add: powr_minus field_simps)
  also have "\<dots> = 1 / 2 ^ nat (- e)"
    using False by (simp add: powr_realpow [symmetric])
  finally show ?thesis using False by (simp add: pow2_def)
qed

lemma floor_log2_eq:
  assumes "0 < v" "pow2 k \<le> v" "v < pow2 (k + 1)"
  shows "\<lfloor>log 2 v\<rfloor> = k"
proof -
  have "of_int k \<le> log 2 v"
    using assms(1,2) by (simp add: pow2_powr le_log_iff)
  moreover have "log 2 v < of_int k + 1"
    using assms(1,3) by (simp add: pow2_powr log_less_iff)
  ultimately show ?thesis by (simp add: floor_eq_iff)
qed

lemma exponent64_eq:
  assumes "v \<noteq> 0" "pow2 k \<le> \<bar>v\<bar>" "\<bar>v\<bar> < pow2 (k + 1)" "- 1022 \<le> k"
  shows "exponent64 v = k - 52"
  using floor_log2_eq [of "\<bar>v\<bar>" k] assms by (simp add: exponent64_def)

lemma round64_finite:
  assumes "v \<noteq> 0" "exponent64 v = e" "round_half_even (v / pow2 e) = m"
    "\<bar>of_int m * pow2 e\<bar> < pow2 1024"
  shows "round64 v = Finite (of_int m * pow2 e)"
  using assms by (simp add: round64_def Let_def)

lemma round64_overflow:
  assumes "0 < v" "exponent64 v = e" "round_half_even (v / pow2 e) = m"
    "pow2 1024 \<le> \<bar>of_int m * pow2 e\<bar>"
  shows "round64 v = PosInf"
  using assms by (simp add: round64_def Let_def)

lemma round_half_even_int: "round_half_even (of_int m) = m"
  by (simp add: round_half_even_def)

lemma round_half_even_below:
  assumes "of_int m - 1 / 2 < q" "q < of_int m"
  shows "round_half_even q = m"
proof -
  have f: "\<lfloor>q\<rfloor> = m - 1" using assms by (simp add: floor_eq_iff)
  show ?thesis using assms by (simp add: round_half_even_def f Let_def)
qed

lemma deg_small: "degrees64 (Finite (- (1 / 2 ^ 70))) = Finite (- (1007958012753983 / 2 ^ 114))"
proof -
  define v :: real where "v = - (1007958012753983 / 2 ^ 114)"
  have p: "- (1 / 2 ^ 70) * RAD2DEG = v" by (simp add: RAD2DEG_def v_def)
  have e: "exponent64 v = - 65 - 52"
    by (rule exponent64_eq) (simp_all add: v_def pow2_def)
  have q: "v / pow2 (- 65 - 52) = of_int (- 1007958012753983 * 8)"
    by (simp add: v_def pow2_def)
  have m: "round_half_even (v / pow2 (- 65 - 52)) = - 1007958012753983 * 8"
    unfolding q by (rule round_half_even_int)
  have "round64 v = Finite (of_int (- 1007958012753983 * 8) * pow2 (- 65 - 52))"
    by (rule round64_finite [OF _ e m]) (simp_all add: v_def pow2_def)
  also have "of_int (- 1007958012753983 * 8) * pow2 (- 65 - 52) = v"
    by (simp add: v_def pow2_def)
  finally have r: "round64 v = Finite v" .
  have "degrees64 (Finite (- (1 / 2 ^ 70))) = round64 (- (1 / 2 ^ 70) * RAD2DEG)"
    by (simp only: degrees64_def float64.case)
  also have "\<dots> = Finite v" by (simp only: p r)
  finally show ?thesis by (simp only: v_def)
qed

lemma rem_small: "remainder180 (Finite (- (1007958012753983 / 2 ^ 114))) = Finite 180"
proof -
  define a :: real where "a = - (1007958012753983 / 2 ^ 114)"
  have c: "\<lceil>a / 180\<rceil> = 0" by (simp add: a_def ceiling_eq_iff)
  have fm: "fmod180 a = a" by (simp add: fmod180_def c) (simp add: a_def)
  define v where "v = a + 180"
  have e: "exponent64 v = 7 - 52"
    by (rule exponent64_eq) (simp_all add: v_def a_def pow2_def)
  have m: "round_half_even (v / pow2 (7 - 52)) = 180 * 2 ^ 45"
    by (rule round_half_even_below) (simp_all add: v_def a_def pow2_def)
  have "round64 v = Finite (of_int (180 * 2 ^ 45) * pow2 (7 - 52))"
    by (rule round64_finite [OF _ e m]) (simp_all add: v_def a_def pow2_def)
  also have "of_int (180 * 2 ^ 45) * pow2 (7 - 52) = 180" by (simp add: pow2_def)
  finally have r: "round64 (a + 180) = Finite 180" by (simp only: v_def)
  have n: "a \<noteq> 0" "a < 0" by (simp_all add: a_def)
  have "remainder180 (Finite a) = Finite 180"
    by (simp only: remainder180_def float64.case Let_def fm n r if_True not_False_eq_True)
  then show ?thesis by (simp only: a_def)
qed

lemma deg_large:
  "degrees64 (Finite (8016673440035891 * 2 ^ 967)) = PosInf"
proof -
  define v :: real where "v = 8016673440035891 * 1007958012753983 * 2 ^ 923"
  have p: "8016673440035891 * 2 ^ 967 * RAD2DEG = v"
  proof -
    have "(2::real) ^ 967 = 2 ^ 923 * 2 ^ 44" by (simp add: power_add [symmetric])
    then show ?thesis by (simp add: RAD2DEG_def v_def)
  qed
  have pos: "0 < v" by (simp add: v_def)
  have e: "exponent64 v = 1025 - 52"
  proof (rule exponent64_eq)
    show "v \<noteq> 0" using pos by simp
    have "(2::real) ^ 1025 = 2 ^ 102 * 2 ^ 923" by (simp add: power_add [symmetric])
    then show "pow2 1025 \<le> \<bar>v\<bar>" by (simp add: v_def pow2_def)
    have "(2::real) ^ 1026 = 2 ^ 103 * 2 ^ 923" by (simp add: power_add [symmetric])
    then show "\<bar>v\<bar> < pow2 (1025 + 1)" by (simp add: v_def pow2_def)
    show "- 1022 \<le> (1025::int)" by simp
  qed
  have q: "v / pow2 (1025 - 52) = 8016673440035891 * 1007958012753983 / 2 ^ 50"
  proof -
    have "(2::real) ^ 973 = 2 ^ 50 * 2 ^ 923" by (simp add: power_add [symmetric])
    then show ?thesis by (simp add: v_def pow2_def)
  qed
  have m: "round_half_even (v / pow2 (1025 - 52)) = 7176899278885619"
    unfolding q by (rule round_half_even_below) simp_all
  have big: "pow2 1024 \<le> \<bar>of_int 7176899278885619 * pow2 (1025 - 52)\<bar>"
  proof -
    have "(2::real) ^ 1024 = 2 ^ 51 * 2 ^ 973" by (simp add: power_add [symmetric])
    then show ?thesis by (simp add: pow2_def)
  qed
  have "round64 v = PosInf" by (rule round64_overflow [OF pos e m big])
  then show ?thesis by (simp only: degrees64_def float64.case p)
qed

lemma rem_inf: "remainder180 PosInf = NaN"
  by (simp add: remainder180_def)

text \<open>
  The remainder on ordinary values, for comparison.
\<close>

lemma remainder180_examples:
  "remainder180 (Finite 190) = Finite 10 \<and> remainder180 (Finite (- 10)) = Finite 170 \<and>
   remainder180 (Finite 0) = Finite 0"
proof -
  have f1: "\<lfloor>(190::real) / 180\<rfloor> = 1" by (simp add: floor_eq_iff)
  have a: "remainder180 (Finite 190) = Finite 10"
    by (simp add: remainder180_def fmod180_def f1)
  have c1: "\<lceil>- (1 / 18 :: real)\<rceil> = 0" by (simp add: ceiling_eq_iff)
  have fm: "fmod180 (- 10) = - 10" by (simp add: fmod180_def c1)
  have e: "exponent64 170 = 7 - 52"
    by (rule exponent64_eq) (simp_all add: pow2_def)
  have q: "170 / pow2 (7 - 52) = of_int (170 * 2 ^ 45)" by (simp add: pow2_def)
  have m: "round_half_even (170 / pow2 (7 - 52)) = 170 * 2 ^ 45"
    unfolding q by (rule round_half_even_int)
  have "round64 170 = Finite (of_int (170 * 2 ^ 45) * pow2 (7 - 52))"
    by (rule round64_finite [OF _ e m]) (simp_all add: pow2_def)
  also have "of_int (170 * 2 ^ 45) * pow2 (7 - 52) = 170" by (simp add: pow2_def)
  finally have r: "round64 170 = Finite 170" .
  have b: "remainder180 (Finite (- 10)) = Finite 170"
    by (simp add: remainder180_def fm r)
  have c: "remainder180 (Finite 0) = Finite 0"
    by (simp add: remainder180_def fmod180_def)
  show ?thesis using a b c by simp
qed

text \<open>
  Claim C5. In float64 the histogram angle is not always in \<open>[0, 180)\<close>, as the comment of
  line 271 says it is: the final angle \<open>- 2 ^ -70\<close> has the histogram angle \<open>180\<close> exactly,
  and the final angle \<open>1e307\<close>, which is the double \<open>8016673440035891 * 2 ^ 967\<close>, has the
  histogram angle NaN.
\<close>

theorem histogram_float64_out_of_range:
  "angles_deg64 [Finite (- (1 / 2 ^ 70))] = [Finite 180] \<and>
   angles_deg64 [Finite (8016673440035891 * 2 ^ 967)] = [NaN]"
  by (simp only: angles_deg64_def list.map deg_small rem_small deg_large rem_inf simp_thms)

subsection \<open>The store: what a run leaves unchanged\<close>

lemma frames_ret: "Q v \<Longrightarrow> frames n (ret v) Q"
  by (simp add: frames_def ret_def)

lemma frames_raise: "frames n (raise e) Q"
  by (simp add: frames_def raise_def)

lemma frames_weaken: "frames n m P \<Longrightarrow> (\<And>v. P v \<Longrightarrow> Q v) \<Longrightarrow> frames n m Q"
  by (fastforce simp: frames_def split: prod.splits sum.splits)

lemma frames_bind:
  assumes "frames n m P" "\<And>v. P v \<Longrightarrow> frames n (f v) Q"
  shows "frames n (bind_prog m f) Q"
  unfolding frames_def
proof (intro allI impI)
  fix s :: store assume n: "n \<le> length s"
  obtain r s1 where ms: "m s = (r, s1)" by (cases "m s")
  from assms(1) n ms have 1: "n \<le> length s1" "take n s1 = take n s"
    and r: "case r of Inl _ \<Rightarrow> True | Inr v \<Rightarrow> P v"
    by (auto simp: frames_def)
  show "case bind_prog m f s of (r, s') \<Rightarrow>
           n \<le> length s' \<and> take n s' = take n s \<and> (case r of Inl _ \<Rightarrow> True | Inr v \<Rightarrow> Q v)"
  proof (cases r)
    case (Inl e)
    then show ?thesis using 1 ms by (simp add: bind_prog_def)
  next
    case (Inr v)
    with r have "P v" by simp
    from assms(2) [OF this] 1(1) have
      "case f v s1 of (r, s') \<Rightarrow>
           n \<le> length s' \<and> take n s' = take n s1 \<and> (case r of Inl _ \<Rightarrow> True | Inr v \<Rightarrow> Q v)"
      by (simp add: frames_def)
    then show ?thesis using 1 ms Inr by (auto simp: bind_prog_def split: prod.splits)
  qed
qed

lemma frames_new: "frames n (new ob) (\<lambda>r. n \<le> r)"
  by (simp add: frames_def new_def)

lemma frames_array_at: "frames n (array_at r) (\<lambda>_. True)"
  by (simp add: frames_def array_at_def split: obj.splits)

lemma frames_traces_at: "frames n (traces_at r) (\<lambda>_. True)"
  by (simp add: frames_def traces_at_def split: obj.splits)

lemma frames_extend: "n \<le> r \<Longrightarrow> frames n (list_extend r vs) (\<lambda>_. True)"
  by (simp add: frames_def list_extend_def split: obj.splits)

lemma frames_append_trace: "n \<le> r \<Longrightarrow> frames n (append_trace r t) (\<lambda>_. True)"
  by (simp add: frames_def append_trace_def split: obj.splits)

lemma frames_np_map: "frames n (np_map f r) (\<lambda>v. n \<le> v)"
  unfolding np_map_def by (rule frames_bind [OF frames_array_at frames_new])

lemma frames_np_full_len: "frames n (np_full_len r v) (\<lambda>v. n \<le> v)"
  unfolding np_full_len_def by (rule frames_bind [OF frames_array_at frames_new])

lemma frames_np_map2: "frames n (np_map2 f r1 r2) (\<lambda>v. n \<le> v)"
  unfolding np_map2_def
  by (intro frames_bind [OF frames_array_at]) (auto split: sum.splits intro: frames_raise frames_new)

lemma frames_ellipse_loop: "n \<le> traces \<Longrightarrow> frames n (ellipse_loop traces e gs) (\<lambda>_. True)"
proof (induction gs)
  case Nil
  then show ?case by (simp add: frames_ret)
next
  case (Cons g gs)
  obtain xi yi t where g: "g = (xi, yi, t)" by (cases g)
  show ?case
    unfolding g ellipse_loop.simps
    by (intro frames_bind [OF frames_new] frames_bind [OF frames_append_trace] Cons)
qed

lemma frames_make_ellipses_store: "frames n (make_ellipses_store xr yr thr e) (\<lambda>v. n \<le> v)"
  unfolding make_ellipses_store_def
  by (intro frames_bind [OF frames_new] frames_bind [OF frames_array_at]
      frames_bind [OF frames_ellipse_loop] frames_ret)

lemma frames_lines_loop:
  "n \<le> xl \<Longrightarrow> n \<le> yl \<Longrightarrow> frames n (lines_loop xl yl ps) (\<lambda>_. True)"
proof (induction ps)
  case Nil
  then show ?case by (simp add: frames_ret)
next
  case (Cons p ps)
  obtain xs ys xe ye where p: "p = (xs, ys, xe, ye)" by (cases p)
  show ?case
    unfolding p lines_loop.simps
    by (intro frames_bind [OF frames_extend] Cons)
qed

lemma frames_overlay_vectors: "n \<le> fig \<Longrightarrow> frames n (overlay_vectors m th fig) (\<lambda>_. True)"
  unfolding overlay_vectors_def Let_def
  by (intro frames_bind [OF frames_np_map2] frames_bind [OF frames_new]
      frames_bind [OF frames_array_at] frames_bind [OF frames_lines_loop] frames_append_trace)

lemma frames_final_angles:
  "frames n (final_angles m ia sh pdeg sdeg pat) (\<lambda>v. n \<le> v)"
proof -
  have sa: "frames n
     (if pat = ''uniform'' then np_full_len (x_ref m) u
      else if pat = ''radial'' then bind_prog (np_map2 arctan2 yc xc) (np_map (\<lambda>v. v + pi / 2))
      else if pat = ''tangential'' then np_map2 arctan2 yc xc
      else np_full_len (x_ref m) 0) (\<lambda>v. n \<le> v)" for u yc xc
    by (auto intro: frames_np_full_len frames_np_map2 frames_bind [OF frames_np_map2 frames_np_map])
  show ?thesis
    unfolding final_angles_def Let_def
    by (intro frames_bind [OF frames_np_map] frames_bind [OF sa] frames_bind [OF frames_np_map2]
        frames_np_map2)
qed

lemma frames_update_plot:
  "frames n (update_plot m ia sh pdeg sdeg tog pat) (\<lambda>_. True)"
proof -
  have ov: "n \<le> fig \<Longrightarrow> frames n
     (if ''show_vectors'' \<in> set tog then overlay_vectors m th fig else ret ()) (\<lambda>_. True)"
    for th fig
    by (auto intro: frames_overlay_vectors frames_ret)
  show ?thesis
    unfolding update_plot_def
    by (intro frames_bind [OF frames_final_angles] frames_bind [OF frames_np_map]
        frames_bind [OF frames_make_ellipses_store] frames_bind [OF frames_traces_at]
        frames_bind [OF frames_new] frames_bind [OF ov] frames_bind [OF frames_append_trace]
        frames_ret TrueI)
qed

lemma framesD:
  assumes "frames n m Q" "n \<le> length s"
  shows "n \<le> length (snd (m s))" "take n (snd (m s)) = take n s"
proof -
  obtain r s' where ms: "m s = (r, s')" by (cases "m s")
  from assms ms have "n \<le> length s' \<and> take n s' = take n s"
    unfolding frames_def by fastforce
  then show "n \<le> length (snd (m s))" "take n (snd (m s)) = take n s"
    by (simp_all add: ms)
qed

text \<open>
  On three arrays of equal length, the store version of lines 199 to 222 returns the
  address of an array holding what \<open>theta_all\<close> computes.
\<close>

lemma bind_prog_Inr: "m s = (Inr v, s') \<Longrightarrow> bind_prog m f s = f v s'"
  by (simp add: bind_prog_def)

lemma np_map_run:
  "r < length s \<Longrightarrow> s ! r = NdArray a \<Longrightarrow>
   np_map f r s = (Inr (length s), s @ [NdArray (map f a)])"
  by (simp add: np_map_def bind_prog_def array_at_def new_def)

lemma np_full_len_run:
  "r < length s \<Longrightarrow> s ! r = NdArray a \<Longrightarrow>
   np_full_len r v s = (Inr (length s), s @ [NdArray (replicate (length a) v)])"
  by (simp add: np_full_len_def bind_prog_def array_at_def new_def)

lemma np_map2_run:
  "r1 < length s \<Longrightarrow> s ! r1 = NdArray a \<Longrightarrow> r2 < length s \<Longrightarrow> s ! r2 = NdArray b \<Longrightarrow>
   length a = length b \<Longrightarrow>
   np_map2 f r1 r2 s = (Inr (length s), s @ [NdArray (map2 f a b)])"
  by (simp add: np_map2_def bind_prog_def array_at_def new_def broadcast2_same)

lemma final_angles_run:
  assumes refs: "x_ref m < length s" "y_ref m < length s" "theta_random_ref m < length s"
    and arrs: "s ! x_ref m = NdArray xs" "s ! y_ref m = NdArray ys"
      "s ! theta_random_ref m = NdArray th"
    and ok: "population_ok xs ys th"
  shows "\<exists>zs a s'. theta_all xs ys th ia sh pdeg sdeg pat = Inr zs \<and>
           final_angles m ia sh pdeg sdeg pat s = (Inr a, s') \<and>
           a < length s' \<and> s' ! a = NdArray zs"
proof -
  from ok have l: "length xs = length ys" "length ys = length th"
    by (simp_all add: population_ok_def)
  show ?thesis
    using refs arrs l
    by (simp add: final_angles_def theta_all_def shear_angles_def shear_offset_def
        intrinsic_offset_def Let_def broadcast2_same np_map_run np_map2_run np_full_len_run
        bind_prog_Inr nth_append)
qed

text \<open>
  One run written out: a single galaxy at \<open>(50, 50)\<close> with base angle \<open>0\<close>, intrinsic
  strength \<open>1\<close> towards 45 degrees, no shear, vectors shown.
\<close>

lemma update_plot_scenario:
  "update_plot \<lparr>x_ref = 0, y_ref = 1, theta_random_ref = 2\<rparr> 1 0 45 90 [''show_vectors''] ''uniform''
     [NdArray [50], NdArray [50], NdArray [0]] =
   (Inr (14, 22),
    [NdArray [50], NdArray [50], NdArray [0], NdArray [99 / 2], NdArray [99 / 2],
     NdArray [pi / 2], NdArray [1], NdArray [pi / 2], NdArray [0], NdArray [1], NdArray [1],
     Traces [Scatter 12 13],
     NdArray (fst (ellipse_outline 30 50 50 1 ellipticity)),
     NdArray (snd (ellipse_outline 30 50 50 1 ellipticity)),
     Traces [Scatter 12 13, Scatter 19 20],
     NdArray [50 - 5 * cos 1 / 4], NdArray [50 - 5 * sin 1 / 4],
     NdArray [50 + 5 * cos 1 / 4], NdArray [50 + 5 * sin 1 / 4],
     PyList [Some (50 - 5 * cos 1 / 4), Some (50 + 5 * cos 1 / 4), None],
     PyList [Some (50 - 5 * sin 1 / 4), Some (50 + 5 * sin 1 / 4), None],
     NdArray (angles_deg [1]),
     Traces [Histogram 21]])"
  by (simp add: update_plot_def final_angles_def make_ellipses_store_def overlay_vectors_def
  np_map_def np_map2_def np_full_len_def bind_prog_def array_at_def traces_at_def new_def ret_def
  raise_def list_extend_def append_trace_def broadcast2_def Let_def deg2rad_def nth_append
  angles_deg_def eval_nat_numeral)

text \<open>
  Claim C9. Every run of \<open>update_plot\<close>, whether it returns or raises, leaves the arrays
  \<open>x\<close>, \<open>y\<close> and \<open>theta_random\<close> as they were, and with them the number of galaxies: the
  store only grows, and every object that was in it before the call is unchanged.
\<close>

theorem population_unchanged:
  assumes "x_ref m < length s" "y_ref m < length s" "theta_random_ref m < length s"
  shows "snd (update_plot m ia sh pdeg sdeg tog pat s) ! x_ref m = s ! x_ref m \<and>
         snd (update_plot m ia sh pdeg sdeg tog pat s) ! y_ref m = s ! y_ref m \<and>
         snd (update_plot m ia sh pdeg sdeg tog pat s) ! theta_random_ref m =
           s ! theta_random_ref m \<and>
         length s \<le> length (snd (update_plot m ia sh pdeg sdeg tog pat s)) \<and>
         (\<forall>a < length s. snd (update_plot m ia sh pdeg sdeg tog pat s) ! a = s ! a)"
proof -
  let ?s' = "snd (update_plot m ia sh pdeg sdeg tog pat s)"
  have le: "length s \<le> length ?s'" and tk: "take (length s) ?s' = s"
    using framesD [OF frames_update_plot [of "length s" m ia sh pdeg sdeg tog pat], of s]
    by simp_all
  have keep: "?s' ! a = s ! a" if "a < length s" for a
  proof -
    have "?s' ! a = take (length s) ?s' ! a" using that by simp
    then show ?thesis by (simp add: tk)
  qed
  show ?thesis using assms le keep by simp
qed

theorem population_unchanged_witness:
  "x_ref \<lparr>x_ref = 0, y_ref = 1, theta_random_ref = 2\<rparr> < length [NdArray [50], NdArray [50], NdArray [0]] \<and>
   y_ref \<lparr>x_ref = 0, y_ref = 1, theta_random_ref = 2\<rparr> < length [NdArray [50], NdArray [50], NdArray [0]] \<and>
   theta_random_ref \<lparr>x_ref = 0, y_ref = 1, theta_random_ref = 2\<rparr>
     < length [NdArray [50], NdArray [50], NdArray [0]] \<and>
   snd (update_plot \<lparr>x_ref = 0, y_ref = 1, theta_random_ref = 2\<rparr> 1 0 45 90 [''show_vectors'']
          ''radial'' [NdArray [50], NdArray [50], NdArray [0]]) ! 0 = NdArray [50] \<and>
   snd (update_plot \<lparr>x_ref = 0, y_ref = 1, theta_random_ref = 2\<rparr> 1 0 45 90 [''show_vectors'']
          ''radial'' [NdArray [50], NdArray [50], NdArray [0]]) ! 1 = NdArray [50] \<and>
   snd (update_plot \<lparr>x_ref = 0, y_ref = 1, theta_random_ref = 2\<rparr> 1 0 45 90 [''show_vectors'']
          ''radial'' [NdArray [50], NdArray [50], NdArray [0]]) ! 2 = NdArray [0]"
  using population_unchanged [of "\<lparr>x_ref = 0, y_ref = 1, theta_random_ref = 2\<rparr>"
      "[NdArray [50], NdArray [50], NdArray [0]]" 1 0 45 90 "[''show_vectors'']" "''radial''"]
  by simp

section \<open>Exact arithmetic\<close>

text \<open>
  The statements of this section hold of the model in which the arithmetic is exact. The
  program computes in float64 and has them only up to rounding: there \<open>sin (2 * pi)\<close> is
  not \<open>0\<close>, \<open>theta + pi\<close> and every sum are rounded, and large strengths overflow.
\<close>

lemma mod180_range: "0 \<le> mod180 v \<and> mod180 v < 180"
proof -
  have "of_int \<lfloor>v / 180\<rfloor> \<le> v / 180" "v / 180 < of_int \<lfloor>v / 180\<rfloor> + 1"
    by linarith+
  then show ?thesis by (simp add: mod180_def field_simps)
qed

lemma mod180_shift: "mod180 (v + 180) = mod180 v"
proof -
  have h: "(v + 180) / 180 = v / 180 + 1" by simp
  have "\<lfloor>(v + 180) / 180\<rfloor> = \<lfloor>v / 180 + 1\<rfloor>" by (simp only: h)
  also have "\<dots> = \<lfloor>v / 180\<rfloor> + 1" by (rule one_add_floor [symmetric])
  finally have "\<lfloor>(v + 180) / 180\<rfloor> = \<lfloor>v / 180\<rfloor> + 1" .
  then show ?thesis by (simp add: mod180_def algebra_simps)
qed

text \<open>
  In exact arithmetic every histogram angle lies in \<open>[0, 180)\<close>, and two final angles whose
  values in degrees differ by \<open>180\<close> have the same histogram angle.
\<close>

lemma histogram_wrap:
  "(\<forall>v \<in> set (angles_deg th). 0 \<le> v \<and> v < 180) \<and>
   (degrees a = degrees b + 180 \<longrightarrow> angles_deg [a] = angles_deg [b])"
  using mod180_range by (auto simp: angles_deg_def mod180_shift)

lemma linspace_length: "length (linspace a b n) = n"
  by (simp add: linspace_def)

lemma linspace_first: "2 \<le> n \<Longrightarrow> linspace a b n ! 0 = a"
  by (simp add: linspace_def)

lemma linspace_last: "2 \<le> n \<Longrightarrow> linspace a b n ! (n - Suc 0) = b"
  by (simp add: linspace_def)

lemma ellipse_outline_points:
  assumes "i < n"
  shows "fst (ellipse_outline n xi yi t e) ! i =
           cos t * (1 / 2 * cos (linspace 0 (2 * pi) n ! i))
           - sin t * (e / 2 * sin (linspace 0 (2 * pi) n ! i)) + xi"
    and "snd (ellipse_outline n xi yi t e) ! i =
           sin t * (1 / 2 * cos (linspace 0 (2 * pi) n ! i))
           + cos t * (e / 2 * sin (linspace 0 (2 * pi) n ! i)) + yi"
    and "length (fst (ellipse_outline n xi yi t e)) = n"
    and "length (snd (ellipse_outline n xi yi t e)) = n"
  using assms by (simp_all add: ellipse_outline_def Let_def linspace_length)

lemma ellipse_outline_closed:
  assumes "2 \<le> n"
  shows "fst (ellipse_outline n xi yi t e) \<noteq> [] \<and> snd (ellipse_outline n xi yi t e) \<noteq> [] \<and>
         hd (fst (ellipse_outline n xi yi t e)) = last (fst (ellipse_outline n xi yi t e)) \<and>
         hd (snd (ellipse_outline n xi yi t e)) = last (snd (ellipse_outline n xi yi t e))"
proof -
  let ?ex = "fst (ellipse_outline n xi yi t e)"
  let ?ey = "snd (ellipse_outline n xi yi t e)"
  have n0: "0 < n" "n - Suc 0 < n" using assms by simp_all
  have lx: "length ?ex = n" and ly: "length ?ey = n"
    using ellipse_outline_points(3,4) [OF n0(1)] by simp_all
  then have ne: "?ex \<noteq> []" "?ey \<noteq> []" using n0 by auto
  have "hd ?ex = ?ex ! 0" "hd ?ey = ?ey ! 0" using ne by (simp_all add: hd_conv_nth)
  moreover have "last ?ex = ?ex ! (n - 1)" "last ?ey = ?ey ! (n - 1)"
    using ne lx ly by (simp_all add: last_conv_nth)
  moreover have "?ex ! 0 = ?ex ! (n - 1)"
    by (simp add: ellipse_outline_points(1) [OF n0(1)] ellipse_outline_points(1) [OF n0(2)]
        linspace_first [OF assms] linspace_last [OF assms])
  moreover have "?ey ! 0 = ?ey ! (n - 1)"
    by (simp add: ellipse_outline_points(2) [OF n0(1)] ellipse_outline_points(2) [OF n0(2)]
        linspace_first [OF assms] linspace_last [OF assms])
  ultimately show ?thesis using ne by simp
qed

text \<open>
  In exact arithmetic the outline of \<open>n \<ge> 2\<close> samples is closed: its first and last points
  are equal, and so are those of every trace of \<open>make_ellipses\<close>.
\<close>

lemma ellipse_closed:
  "(2 \<le> n \<longrightarrow>
      fst (ellipse_outline n xi yi t e) \<noteq> [] \<and> snd (ellipse_outline n xi yi t e) \<noteq> [] \<and>
      hd (fst (ellipse_outline n xi yi t e)) = last (fst (ellipse_outline n xi yi t e)) \<and>
      hd (snd (ellipse_outline n xi yi t e)) = last (snd (ellipse_outline n xi yi t e))) \<and>
   (\<forall>tr \<in> set (make_ellipses xs ys th e).
      sx tr \<noteq> [] \<and> sy tr \<noteq> [] \<and> hd (sx tr) = last (sx tr) \<and> hd (sy tr) = last (sy tr))"
proof
  show "2 \<le> n \<longrightarrow>
      fst (ellipse_outline n xi yi t e) \<noteq> [] \<and> snd (ellipse_outline n xi yi t e) \<noteq> [] \<and>
      hd (fst (ellipse_outline n xi yi t e)) = last (fst (ellipse_outline n xi yi t e)) \<and>
      hd (snd (ellipse_outline n xi yi t e)) = last (snd (ellipse_outline n xi yi t e))"
    using ellipse_outline_closed by blast
next
  have c: "(2::nat) \<le> 30" by simp
  show "\<forall>tr \<in> set (make_ellipses xs ys th e).
      sx tr \<noteq> [] \<and> sy tr \<noteq> [] \<and> hd (sx tr) = last (sx tr) \<and> hd (sy tr) = last (sy tr)"
  proof
    fix tr assume "tr \<in> set (make_ellipses xs ys th e)"
    then obtain xi yi t ex ey where
      tr: "ellipse_outline 30 xi yi t e = (ex, ey)" "tr = \<lparr>sx = map Some ex, sy = map Some ey\<rparr>"
      by (auto simp: make_ellipses_def split: prod.splits)
    from ellipse_outline_closed [OF c, of xi yi t e]
    show "sx tr \<noteq> [] \<and> sy tr \<noteq> [] \<and> hd (sx tr) = last (sx tr) \<and> hd (sy tr) = last (sy tr)"
      by (simp add: tr hd_map last_map)
  qed
qed

text \<open>
  In exact arithmetic, adding \<open>pi\<close> to every base angle changes neither the
  intrinsic-alignment offsets nor the shear offsets.
\<close>

lemma offsets_periodic:
  "intrinsic_offset ia pa (map (\<lambda>t. t + pi) th) = intrinsic_offset ia pa th \<and>
   shear_offset sh sa (map (\<lambda>t. t + pi) th) = shear_offset sh sa th"
proof
  have s: "sin (2 * (c - (t + pi))) = sin (2 * (c - t))" for c t :: real
  proof -
    have "2 * (c - (t + pi)) = 2 * (c - t) - 2 * pi" by (simp add: algebra_simps)
    then show ?thesis by (simp add: sin_diff)
  qed
  show "intrinsic_offset ia pa (map (\<lambda>t. t + pi) th) = intrinsic_offset ia pa th"
    by (simp only: intrinsic_offset_def map_map comp_def s)
  show "shear_offset sh sa (map (\<lambda>t. t + pi) th) = shear_offset sh sa th"
  proof -
    have "broadcast2 (\<lambda>s t. s - t) sa (map (\<lambda>t. t + pi) th) =
            map_sum id (map (\<lambda>v. v - pi)) (broadcast2 (\<lambda>s t. s - t) sa th)"
      by (auto simp: broadcast2_def list_eq_iff_nth_eq hd_map)
    moreover have "sin (2 * (v - pi)) = sin (2 * v)" for v :: real
      using s [of v 0] by simp
    ultimately show ?thesis
      by (cases "broadcast2 (\<lambda>s t. s - t) sa th") (simp_all add: shear_offset_def comp_def)
  qed
qed

lemma theta_all_scenario: "theta_all [50] [50] [0] 1 0 45 90 ''uniform'' = Inr [1]"
  by (simp add: theta_all_def shear_angles_def intrinsic_offset_def shear_offset_def
      broadcast2_def deg2rad_def)

text \<open>
  On arrays of equal length \<open>theta_all\<close> raises no exception and returns one angle for each
  galaxy, for every pattern string. In exact arithmetic every angle is a real number; in
  float64 it can be an infinity.
\<close>

lemma model_total:
  assumes "population_ok xs ys th"
  shows "\<exists>zs. theta_all xs ys th ia sh pdeg sdeg p = Inr zs \<and> length zs = length th"
  using theta_all_explicit [OF assms, of sdeg p ia sh pdeg] by auto

text \<open>
  In exact arithmetic every final angle differs from its base angle by at most
  \<open>\<bar>ia_strength\<bar> + \<bar>shear_strength\<bar>\<close>.
\<close>

lemma deviation_bound:
  assumes "population_ok xs ys th" "theta_all xs ys th ia sh pdeg sdeg p = Inr zs"
    "i < length th"
  shows "\<bar>zs ! i - th ! i\<bar> \<le> \<bar>ia\<bar> + \<bar>sh\<bar> \<and>
         (0 \<le> ia \<and> ia \<le> 1 \<and> 0 \<le> sh \<and> sh \<le> 1 \<longrightarrow> \<bar>zs ! i - th ! i\<bar> \<le> 2)"
proof -
  from theta_all_explicit [OF assms(1), of sdeg p ia sh pdeg] assms(2) obtain sa where
    sa: "length sa = length th"
      "zs = map2 (\<lambda>t s. t + ia * sin (2 * (deg2rad pdeg - t)) + sh * sin (2 * (s - t))) th sa"
    by auto
  define A where "A = sin (2 * (deg2rad pdeg - th ! i))"
  define B where "B = sin (2 * (sa ! i - th ! i))"
  have z: "zs ! i - th ! i = ia * A + sh * B"
    using sa assms(3) by (simp add: A_def B_def)
  have "\<bar>A\<bar> \<le> 1" "\<bar>B\<bar> \<le> 1" by (simp_all add: A_def B_def)
  then have "\<bar>ia * A\<bar> \<le> \<bar>ia\<bar>" "\<bar>sh * B\<bar> \<le> \<bar>sh\<bar>"
    by (simp_all add: abs_mult mult_left_le)
  then have b: "\<bar>zs ! i - th ! i\<bar> \<le> \<bar>ia\<bar> + \<bar>sh\<bar>"
    unfolding z by linarith
  then show ?thesis by auto
qed

end
